theory Spec2Isabelle
  imports Main "HOL-Library.Sublist"
begin

section \<open>The site configuration of docs/.vitepress/config.mts\<close>

text \<open>
  The configuration module exports one object literal. Its strings are modelled as
  \<^typ>\<open>string\<close>, holding the bytes of the source file (UTF-8): an ASCII character is one
  \<^typ>\<open>char\<close>, a Chinese character of a label is three. An object literal whose keys are
  fixed is a record; an object used as a dictionary (\<open>locales\<close>, the attribute object of a
  head tag) is an association list in the order the keys are written. An optional
  property is an \<^typ>\<open>'a option\<close>.

  Some properties of the source carry the same name in several objects (\<open>text\<close>,
  \<open>link\<close>, \<open>title\<close>, \<open>description\<close>, \<open>themeConfig\<close>, \<open>siteTitle\<close>, \<open>editLink\<close>,
  \<open>lastUpdated\<close>); the record fields carry a prefix where they would clash.
\<close>

subsection \<open>Data model\<close>

text \<open>An entry of \<open>nav\<close> and of a sidebar group's \<open>items\<close>: \<open>{ text, link }\<close>.\<close>

record NavItem =
  item_text :: string
  item_link :: string

text \<open>A sidebar group: \<open>{ text, items }\<close>.\<close>

record SidebarGroup =
  group_text :: string
  items :: "NavItem list"

text \<open>The \<open>themeConfig\<close> of a locale; the root locale sets \<open>nav\<close> and \<open>sidebar\<close> only.\<close>

record LocaleThemeConfig =
  locale_siteTitle :: "string option"
  locale_editLink_text :: "string option"
  locale_lastUpdated_text :: "string option"
  nav :: "NavItem list"
  sidebar :: "SidebarGroup list"

text \<open>A value of the \<open>locales\<close> dictionary; the root locale has no \<open>link\<close>.\<close>

record LocaleConfig =
  label :: string
  lang :: string
  link :: "string option"
  locale_title :: string
  locale_description :: string
  locale_themeConfig :: LocaleThemeConfig

text \<open>A head tag \<open>[tag, { attribute: value, ... }]\<close>.\<close>

type_synonym HeadConfig = "string \<times> (string \<times> string) list"

text \<open>The site-wide \<open>themeConfig\<close>.\<close>

record SocialLink =
  icon :: string
  social_link :: string

record SearchTranslations =
  buttonText :: string
  buttonAriaLabel :: string
  noResultsText :: string
  resetButtonTitle :: string
  selectText :: string
  navigateText :: string
  closeText :: string

record ThemeConfig =
  logo :: string
  siteTitle :: string
  socialLinks :: "SocialLink list"
  footer_message :: string
  footer_copyright :: string
  search_provider :: string
  search_locales :: "(string \<times> SearchTranslations) list"
  editLink_pattern :: string
  editLink_text :: string

text \<open>The object passed to \<open>defineConfig\<close>; \<open>sitemap_hostname\<close> is \<open>sitemap.hostname\<close>.\<close>

record SiteConfig =
  title :: string
  description :: string
  sitemap_hostname :: string
  cleanUrls :: bool
  lastUpdated :: bool
  head :: "HeadConfig list"
  themeConfig :: ThemeConfig
  locales :: "(string \<times> LocaleConfig) list"

subsection \<open>The configured values\<close>

text \<open>Line 5: \<open>const hostname = 'https://clawdbot-guide.com'\<close>.\<close>

definition hostname :: string where
  "hostname = ''https://clawdbot-guide.com''"

text \<open>
  Lines 23 to 36, the \<open>head\<close> array. The module reads the constant \<open>hostname\<close> in two
  template literals \<open>`${hostname}/pixel-lobster.svg`\<close>; the array is written here as a
  function of that constant, so that it can be read at another hostname as well.
\<close>

definition head_of :: "string \<Rightarrow> HeadConfig list" where
  "head_of h =
    [ (''link'', [(''rel'', ''icon''), (''href'', ''/pixel-lobster.svg'')]),
      (''meta'', [(''name'', ''theme-color''), (''content'', ''#bd34fe'')]),
      (''meta'', [(''name'', ''author''), (''content'', ''Gnod'')]),
      (''meta'', [(''property'', ''og:type''), (''content'', ''website'')]),
      (''meta'', [(''property'', ''og:image''), (''content'', h @ ''/pixel-lobster.svg'')]),
      (''meta'', [(''name'', ''twitter:card''), (''content'', ''summary_large_image'')]),
      (''meta'', [(''name'', ''twitter:image''), (''content'', h @ ''/pixel-lobster.svg'')]) ]"

text \<open>Lines 38 to 73, the site-wide \<open>themeConfig\<close>.\<close>

definition root_search_translations :: SearchTranslations where
  "root_search_translations =
    \<lparr> buttonText =
        [CHR 0xE6, CHR 0x90, CHR 0x9C, CHR 0xE7, CHR 0xB4, CHR 0xA2, CHR 0xE6, CHR 0x96, CHR 0x87,
         CHR 0xE6, CHR 0xA1, CHR 0xA3],
      buttonAriaLabel =
        [CHR 0xE6, CHR 0x90, CHR 0x9C, CHR 0xE7, CHR 0xB4, CHR 0xA2, CHR 0xE6, CHR 0x96, CHR 0x87,
         CHR 0xE6, CHR 0xA1, CHR 0xA3],
      noResultsText =
        [CHR 0xE6, CHR 0x97, CHR 0xA0, CHR 0xE6, CHR 0xB3, CHR 0x95, CHR 0xE6, CHR 0x89, CHR 0xBE,
         CHR 0xE5, CHR 0x88, CHR 0xB0, CHR 0xE7, CHR 0x9B, CHR 0xB8, CHR 0xE5, CHR 0x85, CHR 0xB3,
         CHR 0xE7, CHR 0xBB, CHR 0x93, CHR 0xE6, CHR 0x9E, CHR 0x9C],
      resetButtonTitle =
        [CHR 0xE6, CHR 0xB8, CHR 0x85, CHR 0xE9, CHR 0x99, CHR 0xA4, CHR 0xE6, CHR 0x9F, CHR 0xA5,
         CHR 0xE8, CHR 0xAF, CHR 0xA2, CHR 0xE6, CHR 0x9D, CHR 0xA1, CHR 0xE4, CHR 0xBB, CHR 0xB6],
      selectText = [CHR 0xE9, CHR 0x80, CHR 0x89, CHR 0xE6, CHR 0x8B, CHR 0xA9],
      navigateText = [CHR 0xE5, CHR 0x88, CHR 0x87, CHR 0xE6, CHR 0x8D, CHR 0xA2],
      closeText = [CHR 0xE5, CHR 0x85, CHR 0xB3, CHR 0xE9, CHR 0x97, CHR 0xAD] \<rparr>"

definition site_themeConfig :: ThemeConfig where
  "site_themeConfig =
    \<lparr> logo = ''/pixel-lobster.svg'',
      siteTitle =
        ''Clawdbot '' @ [CHR 0xE6, CHR 0x8A, CHR 0x80, CHR 0xE6, CHR 0x9C, CHR 0xAF, CHR 0xE8,
                         CHR 0xA7, CHR 0xA3, CHR 0xE6, CHR 0x9E, CHR 0x90],
      socialLinks =
        [\<lparr> icon = ''github'',
            social_link = ''https://github.com/nodfe/clawdbot-technical-analysis'' \<rparr>],
      footer_message = ''Created by Gnod. This site is for educational purposes.'',
      footer_copyright = ''Clawdbot logo and trademarks belong to their respective owners.'',
      search_provider = ''local'',
      search_locales = [(''root'', root_search_translations)],
      editLink_pattern =
        ''https://github.com/nodfe/clawdbot-technical-analysis/edit/main/docs/:path'',
      editLink_text =
        [CHR 0xE5, CHR 0x9C, CHR 0xA8] @ '' GitHub '' @
        [CHR 0xE4, CHR 0xB8, CHR 0x8A, CHR 0xE7, CHR 0xBC, CHR 0x96, CHR 0xE8, CHR 0xBE, CHR 0x91,
         CHR 0xE6, CHR 0xAD, CHR 0xA4, CHR 0xE9, CHR 0xA1, CHR 0xB5] \<rparr>"

text \<open>Lines 76 to 105, the root (zh-CN) locale.\<close>

definition root_nav :: "NavItem list" where
  "root_nav =
    [ \<lparr> item_text = [CHR 0xE9, CHR 0xA6, CHR 0x96, CHR 0xE9, CHR 0xA1, CHR 0xB5],
        item_link = ''/'' \<rparr>,
      \<lparr> item_text = [CHR 0xE9, CHR 0x98, CHR 0x85, CHR 0xE8, CHR 0xAF, CHR 0xBB, CHR 0xE6,
                      CHR 0x95, CHR 0x99, CHR 0xE7, CHR 0xA8, CHR 0x8B],
        item_link = ''/guide/intro'' \<rparr>,
      \<lparr> item_text = ''GitHub'',
        item_link = ''https://github.com/nodfe/clawdbot-technical-analysis'' \<rparr> ]"

definition root_sidebar_items :: "NavItem list" where
  "root_sidebar_items =
    [ \<lparr> item_text = ''1. '' @ [CHR 0xE6, CHR 0xA6, CHR 0x82, CHR 0xE8, CHR 0xBF, CHR 0xB0,
          CHR 0xE4, CHR 0xB8, CHR 0x8E, CHR 0xE6, CHR 0x9E, CHR 0xB6, CHR 0xE6, CHR 0x9E, CHR 0x84,
          CHR 0xE8, CHR 0xAE, CHR 0xBE, CHR 0xE8, CHR 0xAE, CHR 0xA1],
        item_link = ''/guide/intro'' \<rparr>,
      \<lparr> item_text = ''2. Gateway'' @ [CHR 0xE6, CHR 0xA0, CHR 0xB8, CHR 0xE5, CHR 0xBF, CHR 0x83,
          CHR 0xE6, CHR 0x9C, CHR 0xBA, CHR 0xE5, CHR 0x88, CHR 0xB6],
        item_link = ''/guide/gateway'' \<rparr>,
      \<lparr> item_text = ''3. '' @ [CHR 0xE5, CHR 0xA4, CHR 0x9A, CHR 0xE9, CHR 0x80, CHR 0x9A,
          CHR 0xE9, CHR 0x81, CHR 0x93, CHR 0xE7, CHR 0xB3, CHR 0xBB, CHR 0xE7, CHR 0xBB, CHR 0x9F,
          CHR 0xE5, CHR 0xAE, CHR 0x9E, CHR 0xE7, CHR 0x8E, CHR 0xB0],
        item_link = ''/guide/channels'' \<rparr>,
      \<lparr> item_text = ''4. '' @ [CHR 0xE4, CHR 0xBB, CHR 0xA3, CHR 0xE7, CHR 0x90, CHR 0x86] @
          ''(Agent)'' @ [CHR 0xE7, CHR 0xB3, CHR 0xBB, CHR 0xE7, CHR 0xBB, CHR 0x9F],
        item_link = ''/guide/agents'' \<rparr>,
      \<lparr> item_text = ''5. '' @ [CHR 0xE5, CHR 0xB7, CHR 0xA5, CHR 0xE5, CHR 0x85, CHR 0xB7,
          CHR 0xE7, CHR 0xB3, CHR 0xBB, CHR 0xE7, CHR 0xBB, CHR 0x9F, CHR 0xE4, CHR 0xB8, CHR 0x8E,
          CHR 0xE6, CHR 0x89, CHR 0xA9, CHR 0xE5, CHR 0xB1, CHR 0x95],
        item_link = ''/guide/tools'' \<rparr>,
      \<lparr> item_text = ''6. '' @ [CHR 0xE6, CHR 0x8A, CHR 0x80, CHR 0xE8, CHR 0x83, CHR 0xBD,
          CHR 0xE4, CHR 0xB8, CHR 0x8E, CHR 0xE6, CHR 0x8F, CHR 0x92, CHR 0xE4, CHR 0xBB, CHR 0xB6,
          CHR 0xE6, CHR 0x9E, CHR 0xB6, CHR 0xE6, CHR 0x9E, CHR 0x84],
        item_link = ''/guide/skills'' \<rparr>,
      \<lparr> item_text = ''7. '' @ [CHR 0xE5, CHR 0x86, CHR 0x85, CHR 0xE5, CHR 0xAD, CHR 0x98,
          CHR 0xE4, CHR 0xB8, CHR 0x8E, CHR 0xE7, CHR 0x8A, CHR 0xB6, CHR 0xE6, CHR 0x80, CHR 0x81,
          CHR 0xE7, CHR 0xAE, CHR 0xA1, CHR 0xE7, CHR 0x90, CHR 0x86],
        item_link = ''/guide/memory'' \<rparr>,
      \<lparr> item_text = ''8. '' @ [CHR 0xE6, CHR 0xA8, CHR 0xA1, CHR 0xE5, CHR 0x9E, CHR 0x8B,
          CHR 0xE9, CHR 0x9B, CHR 0x86, CHR 0xE6, CHR 0x88, CHR 0x90, CHR 0xE4, CHR 0xB8, CHR 0x8E] @
          ''AI'' @ [CHR 0xE6, CHR 0x8E, CHR 0xA5, CHR 0xE5, CHR 0x8F, CHR 0xA3],
        item_link = ''/guide/models'' \<rparr>,
      \<lparr> item_text = ''9. '' @ [CHR 0xE5, CHR 0xAE, CHR 0x89, CHR 0xE5, CHR 0x85, CHR 0xA8,
          CHR 0xE6, CHR 0xA8, CHR 0xA1, CHR 0xE5, CHR 0x9E, CHR 0x8B, CHR 0xE4, CHR 0xB8, CHR 0x8E,
          CHR 0xE6, CHR 0x9D, CHR 0x83, CHR 0xE9, CHR 0x99, CHR 0x90],
        item_link = ''/guide/security'' \<rparr>,
      \<lparr> item_text = ''10. '' @ [CHR 0xE9, CHR 0x83, CHR 0xA8, CHR 0xE7, CHR 0xBD, CHR 0xB2,
          CHR 0xE4, CHR 0xB8, CHR 0x8E, CHR 0xE6, CHR 0x9C, CHR 0x80, CHR 0xE4, CHR 0xBD, CHR 0xB3,
          CHR 0xE5, CHR 0xAE, CHR 0x9E, CHR 0xE8, CHR 0xB7, CHR 0xB5],
        item_link = ''/guide/deployment'' \<rparr> ]"

definition root_sidebar :: "SidebarGroup list" where
  "root_sidebar =
    [ \<lparr> group_text = [CHR 0xE6, CHR 0x8A, CHR 0x80, CHR 0xE6, CHR 0x9C, CHR 0xAF, CHR 0xE6,
          CHR 0xB7, CHR 0xB1, CHR 0xE5, CHR 0xBA, CHR 0xA6, CHR 0xE8, CHR 0xA7, CHR 0xA3, CHR 0xE6,
          CHR 0x9E, CHR 0x90, CHR 0xE6, CHR 0x95, CHR 0x99, CHR 0xE7, CHR 0xA8, CHR 0x8B],
        items = root_sidebar_items \<rparr> ]"

definition root_locale :: LocaleConfig where
  "root_locale =
    \<lparr> label = [CHR 0xE7, CHR 0xAE, CHR 0x80, CHR 0xE4, CHR 0xBD, CHR 0x93, CHR 0xE4, CHR 0xB8,
                CHR 0xAD, CHR 0xE6, CHR 0x96, CHR 0x87],
      lang = ''zh-CN'',
      link = None,
      locale_title =
        ''Clawdbot '' @ [CHR 0xE6, CHR 0x8A, CHR 0x80, CHR 0xE6, CHR 0x9C, CHR 0xAF, CHR 0xE8,
                         CHR 0xA7, CHR 0xA3, CHR 0xE6, CHR 0x9E, CHR 0x90],
      locale_description =
        ''Clawdbot '' @ [CHR 0xE6, CHR 0xB7, CHR 0xB1, CHR 0xE5, CHR 0xBA, CHR 0xA6, CHR 0xE6,
          CHR 0x8A, CHR 0x80, CHR 0xE6, CHR 0x9C, CHR 0xAF, CHR 0xE6, CHR 0x8C, CHR 0x87, CHR 0xE5,
          CHR 0x8D, CHR 0x97, CHR 0xE4, CHR 0xB8, CHR 0x8E, CHR 0xE6, CHR 0x9E, CHR 0xB6, CHR 0xE6,
          CHR 0x9E, CHR 0x84, CHR 0xE5, CHR 0x88, CHR 0x86, CHR 0xE6, CHR 0x9E, CHR 0x90],
      locale_themeConfig =
        \<lparr> locale_siteTitle = None,
          locale_editLink_text = None,
          locale_lastUpdated_text = None,
          nav = root_nav,
          sidebar = root_sidebar \<rparr> \<rparr>"

text \<open>Lines 106 to 139, the English locale.\<close>

definition en_nav :: "NavItem list" where
  "en_nav =
    [ \<lparr> item_text = ''Home'', item_link = ''/en/'' \<rparr>,
      \<lparr> item_text = ''Read Guide'', item_link = ''/en/guide/intro'' \<rparr>,
      \<lparr> item_text = ''GitHub'',
        item_link = ''https://github.com/nodfe/clawdbot-technical-analysis'' \<rparr> ]"

definition en_sidebar_items :: "NavItem list" where
  "en_sidebar_items =
    [ \<lparr> item_text = ''1. Overview & Architecture'', item_link = ''/en/guide/intro'' \<rparr>,
      \<lparr> item_text = ''2. Gateway Mechanism'', item_link = ''/en/guide/gateway'' \<rparr>,
      \<lparr> item_text = ''3. Multi-Channel System'', item_link = ''/en/guide/channels'' \<rparr>,
      \<lparr> item_text = ''4. Agent System'', item_link = ''/en/guide/agents'' \<rparr>,
      \<lparr> item_text = ''5. Tools & Extensions'', item_link = ''/en/guide/tools'' \<rparr>,
      \<lparr> item_text = ''6. Skills & Plugins'', item_link = ''/en/guide/skills'' \<rparr>,
      \<lparr> item_text = ''7. Memory Management'', item_link = ''/en/guide/memory'' \<rparr>,
      \<lparr> item_text = ''8. Model Integration'', item_link = ''/en/guide/models'' \<rparr>,
      \<lparr> item_text = ''9. Security Model'', item_link = ''/en/guide/security'' \<rparr>,
      \<lparr> item_text = ''10. Deployment'', item_link = ''/en/guide/deployment'' \<rparr> ]"

definition en_sidebar :: "SidebarGroup list" where
  "en_sidebar =
    [ \<lparr> group_text = ''Technical Deep Dive'', items = en_sidebar_items \<rparr> ]"

definition en_locale :: LocaleConfig where
  "en_locale =
    \<lparr> label = ''English'',
      lang = ''en'',
      link = Some ''/en/'',
      locale_title = ''Clawdbot Deep Dive'',
      locale_description = ''In-depth Technical Guide for Clawdbot'',
      locale_themeConfig =
        \<lparr> locale_siteTitle = Some ''Clawdbot Deep Dive'',
          locale_editLink_text = Some ''Edit this page on GitHub'',
          locale_lastUpdated_text = Some ''Last updated'',
          nav = en_nav,
          sidebar = en_sidebar \<rparr> \<rparr>"

text \<open>
  Lines 7 to 141, the exported object, as a function of the constant of line 5, and the
  object the module exports.
\<close>

definition config_of :: "string \<Rightarrow> SiteConfig" where
  "config_of h =
    \<lparr> title =
        ''Clawdbot '' @ [CHR 0xE6, CHR 0x8A, CHR 0x80, CHR 0xE6, CHR 0x9C, CHR 0xAF, CHR 0xE8,
                         CHR 0xA7, CHR 0xA3, CHR 0xE6, CHR 0x9E, CHR 0x90],
      description =
        ''Clawdbot '' @ [CHR 0xE6, CHR 0xB7, CHR 0xB1, CHR 0xE5, CHR 0xBA, CHR 0xA6, CHR 0xE6,
          CHR 0x8A, CHR 0x80, CHR 0xE6, CHR 0x9C, CHR 0xAF, CHR 0xE6, CHR 0x8C, CHR 0x87, CHR 0xE5,
          CHR 0x8D, CHR 0x97, CHR 0xE4, CHR 0xB8, CHR 0x8E, CHR 0xE6, CHR 0x9E, CHR 0xB6, CHR 0xE6,
          CHR 0x9E, CHR 0x84, CHR 0xE5, CHR 0x88, CHR 0x86, CHR 0xE6, CHR 0x9E, CHR 0x90],
      sitemap_hostname = h,
      cleanUrls = True,
      lastUpdated = True,
      head = head_of h,
      themeConfig = site_themeConfig,
      locales = [(''root'', root_locale), (''en'', en_locale)] \<rparr>"

definition config :: SiteConfig where
  "config = config_of hostname"

subsection \<open>Reading the head tags\<close>

text \<open>
  The \<open>content\<close> attribute of the first \<open>meta\<close> tag of a head array whose attribute
  \<open>key\<close> has the value \<open>name\<close>; \<open>None\<close> when there is no such tag or it has no
  \<open>content\<close>.
\<close>

definition meta_content :: "string \<Rightarrow> string \<Rightarrow> HeadConfig list \<Rightarrow> string option" where
  "meta_content key name tags =
    (case find (\<lambda>t. fst t = ''meta'' \<and> map_of (snd t) key = Some name) tags of
       None \<Rightarrow> None
     | Some t \<Rightarrow> map_of (snd t) ''content'')"

text \<open>
  The contents of the two social image tags (Open Graph, Twitter), in the order of the
  head array: the absolute URLs among the head tags.
\<close>

definition social_image_urls :: "HeadConfig list \<Rightarrow> string list" where
  "social_image_urls tags =
    List.map_filter (\<lambda>k. meta_content (fst k) (snd k) tags)
      [(''property'', ''og:image''), (''name'', ''twitter:image'')]"

text \<open>The entries of the sidebar of a locale, over all its groups.\<close>

definition sidebar_items :: "LocaleConfig \<Rightarrow> NavItem list" where
  "sidebar_items l = concat (map items (sidebar (locale_themeConfig l)))"

subsection \<open>Sitemap entries\<close>

text \<open>
  Modelled from the spec: the sitemap is written by the site generator, whose code is not
  among the repository's sources; the configuration only hands it \<open>sitemap.hostname\<close>.
  The spec's glossary has the hostname "prefixed onto every page path when generating
  the XML sitemap", and its section 4.2 gives the form \<open>${hostname}/path\<close>. \<open>paths\<close>
  are the page paths, without a leading slash; there is one entry for each.
\<close>

definition sitemap_entries :: "SiteConfig \<Rightarrow> string list \<Rightarrow> string list" where
  "sitemap_entries cfg paths = map (\<lambda>p. sitemap_hostname cfg @ ''/'' @ p) paths"

subsection \<open>Locale resolution\<close>

text \<open>
  Modelled from the spec: the route prefix of a locale. The locale router of the spec's
  section 4.1 is the site generator's, whose code is not among the repository's sources;
  the configuration only declares the \<open>locales\<close> dictionary it reads. By the spec's
  section 3 a locale has a route prefix, which "for the default locale is empty string",
  while "non-default locales prefix every route". In the configuration the prefix is the
  \<open>link\<close> of the locale, which the root locale does not have.
\<close>

definition route_prefix :: "LocaleConfig \<Rightarrow> string" where
  "route_prefix l = (case link l of None \<Rightarrow> [] | Some p \<Rightarrow> p)"

text \<open>
  Modelled from the spec: the match of a route against an entry of the locale dictionary
  (section 4.1: "the route's leading path segment is matched against each locale's
  non-default prefix (e.g., \<open>/en/...\<close>)"). A prefix is non-default when it is not
  empty, and a route matches it when the route begins with it.
\<close>

definition locale_matches :: "string \<Rightarrow> string \<times> LocaleConfig \<Rightarrow> bool" where
  "locale_matches route kl =
    (route_prefix (snd kl) \<noteq> [] \<and> prefix (route_prefix (snd kl)) route)"

text \<open>
  Modelled from the spec: the locale router (section 4.1: "no match implies the default
  (root) locale"). The result is the key, in the dictionary, of the first locale that
  matches, and \<open>root\<close> when none does.
\<close>

definition resolve_locale :: "(string \<times> LocaleConfig) list \<Rightarrow> string \<Rightarrow> string" where
  "resolve_locale ls route =
    (case find (locale_matches route) ls of None \<Rightarrow> ''root'' | Some kl \<Rightarrow> fst kl)"

text \<open>
  Modelled from the spec: the selection of the sidebar (section 4.1: "select that
  locale's nav/sidebar/title overrides"). The sidebar shown for a route is the sidebar
  of the locale the route resolves to; it is empty when the dictionary has no such key.
\<close>

definition route_sidebar :: "SiteConfig \<Rightarrow> string \<Rightarrow> SidebarGroup list" where
  "route_sidebar cfg route =
    (case map_of (locales cfg) (resolve_locale (locales cfg) route) of
       None \<Rightarrow> []
     | Some l \<Rightarrow> sidebar (locale_themeConfig l))"

subsection \<open>The format of a hostname\<close>

text \<open>
  Modelled from the spec: the format check of a hostname. The configuration module
  performs no check of the hostname (spec, section 4.2: "no validation of
  well-formedness is performed"); the format is the one of the spec's testable property
  3, "a syntactically valid absolute URL with no trailing slash". An absolute URL is
  read here as: a scheme (a letter, then letters, digits, \<open>+\<close>, \<open>-\<close> or \<open>.\<close>), the
  separator \<open>://\<close>, and a non-empty rest; all of it printable ASCII without a space.
  The definitions of this subsection are the parts of that check.
\<close>

definition is_alpha :: "char \<Rightarrow> bool" where
  "is_alpha c =
    (let n = (of_char c :: nat) in (65 \<le> n \<and> n \<le> 90) \<or> (97 \<le> n \<and> n \<le> 122))"

definition is_digit :: "char \<Rightarrow> bool" where
  "is_digit c = (let n = (of_char c :: nat) in 48 \<le> n \<and> n \<le> 57)"

definition is_scheme_char :: "char \<Rightarrow> bool" where
  "is_scheme_char c =
    (is_alpha c \<or> is_digit c \<or> c = CHR ''+'' \<or> c = CHR ''-'' \<or> c = CHR ''.'')"

definition is_url_char :: "char \<Rightarrow> bool" where
  "is_url_char c = (let n = (of_char c :: nat) in 33 \<le> n \<and> n \<le> 126)"

text \<open>
  Modelled from the spec: part of the format check, the text before and after the first
  \<open>://\<close> of a string, if there is one.
\<close>

fun split_scheme :: "string \<Rightarrow> (string \<times> string) option" where
  "split_scheme [] = None"
| "split_scheme (c # cs) =
    (if take 3 (c # cs) = ''://'' then Some ([], drop 3 (c # cs))
     else (case split_scheme cs of None \<Rightarrow> None | Some ab \<Rightarrow> Some (c # fst ab, snd ab)))"

text \<open>
  Modelled from the spec: part of the format check, "a syntactically valid absolute
  URL".
\<close>

definition is_absolute_url :: "string \<Rightarrow> bool" where
  "is_absolute_url s =
    (case split_scheme s of
       None \<Rightarrow> False
     | Some ab \<Rightarrow>
        (case fst ab of
           [] \<Rightarrow> False
         | c # cs \<Rightarrow> is_alpha c \<and> list_all is_scheme_char cs)
        \<and> snd ab \<noteq> [] \<and> list_all is_url_char s)"

text \<open>Modelled from the spec: part of the format check, "with no trailing slash".\<close>

definition no_trailing_slash :: "string \<Rightarrow> bool" where
  "no_trailing_slash s = (case rev s of [] \<Rightarrow> True | c # cs \<Rightarrow> c \<noteq> CHR ''/'')"

text \<open>Modelled from the spec: the format check of testable property 3, whole.\<close>

definition valid_hostname :: "string \<Rightarrow> bool" where
  "valid_hostname s = (is_absolute_url s \<and> no_trailing_slash s)"

section \<open>The prebuilt homepage modules\<close>

text \<open>
  The two server-side render modules (\<open>en/index.md\<close> and \<open>index.md\<close>) each define
  \<^verbatim>\<open>function _sfc_ssrRender(_ctx, _push, _parent, _attrs, $props, $setup, $data, $options) {
    _push(`<div${ssrRenderAttrs(_attrs)}></div>`);
  }\<close>
  The function returns nothing; what it does is the call of \<open>_push\<close>. \<open>_push\<close> is
  modelled as a function from the pushed string to a transformer of the state the caller
  keeps (its output buffer), and the render function returns that transformer.
  \<open>ssrRenderAttrs\<close> is imported from the package \<open>vue/server-renderer\<close>, which is not
  part of the repository: it is a parameter, a function from the attributes to a string.
  The names lose the leading underscore and dollar sign of the source.
\<close>

definition sfc_ssrRender_en_index ::
  "('attrs \<Rightarrow> string) \<Rightarrow> 'ctx \<Rightarrow> (string \<Rightarrow> 'buf \<Rightarrow> 'buf) \<Rightarrow> 'parent \<Rightarrow> 'attrs \<Rightarrow>
     'props \<Rightarrow> 'setup \<Rightarrow> 'data \<Rightarrow> 'options \<Rightarrow> 'buf \<Rightarrow> 'buf" where
  "sfc_ssrRender_en_index ssrRenderAttrs ctx push parent attrs props setup data options =
    push (''<div'' @ ssrRenderAttrs attrs @ ''></div>'')"

definition sfc_ssrRender_index ::
  "('attrs \<Rightarrow> string) \<Rightarrow> 'ctx \<Rightarrow> (string \<Rightarrow> 'buf \<Rightarrow> 'buf) \<Rightarrow> 'parent \<Rightarrow> 'attrs \<Rightarrow>
     'props \<Rightarrow> 'setup \<Rightarrow> 'data \<Rightarrow> 'options \<Rightarrow> 'buf \<Rightarrow> 'buf" where
  "sfc_ssrRender_index ssrRenderAttrs ctx push parent attrs props setup data options =
    push (''<div'' @ ssrRenderAttrs attrs @ ''></div>'')"

text \<open>
  A caller's side, to run the render functions on concrete inputs: a push that appends to
  a list of strings, and an attribute renderer that writes each attribute of an
  association list as a space, the name, \<open>="\<close>, the value and \<open>"\<close> (the form of an HTML
  attribute whose value needs no escaping).
\<close>

definition push_buffer :: "string \<Rightarrow> string list \<Rightarrow> string list" where
  "push_buffer s buf = buf @ [s]"

definition plain_attrs :: "(string \<times> string) list \<Rightarrow> string" where
  "plain_attrs as =
    concat (map (\<lambda>a. '' '' @ fst a @ ''='' @ [CHR 0x22] @ snd a @ [CHR 0x22]) as)"

section \<open>The theme module\<close>

text \<open>
  The theme entry point imports the default theme, a stylesheet and a layout component,
  and exports
  \<^verbatim>\<open>{ extends: DefaultTheme, Layout: Layout, enhanceApp({ app }) { } }\<close>
  The context \<open>enhanceApp\<close> receives holds the application object \<open>app\<close>, the only
  property the hook names, and others (\<open>rest\<close>); the hook could change the application
  (by registering components), so the model returns the context as it is after the
  call. The body of the hook is a comment only. The imported theme and component are
  parameters of the exported object.
\<close>

record ('app, 'rest) EnhanceAppContext =
  app :: 'app
  rest :: 'rest

definition enhanceApp :: "('app, 'rest) EnhanceAppContext \<Rightarrow> ('app, 'rest) EnhanceAppContext" where
  "enhanceApp ctx = ctx"

record ('theme, 'component, 'ctx) Theme =
  extends :: 'theme
  Layout :: 'component
  theme_enhanceApp :: "'ctx \<Rightarrow> 'ctx"

definition theme_imports :: "string list" where
  "theme_imports = [''vitepress/theme'', ''./style.css'', ''./Layout.vue'']"

definition theme ::
  "'theme \<Rightarrow> 'component \<Rightarrow> ('theme, 'component, ('app, 'rest) EnhanceAppContext) Theme" where
  "theme DefaultTheme LayoutVue =
    \<lparr> extends = DefaultTheme, Layout = LayoutVue, theme_enhanceApp = enhanceApp \<rparr>"

section \<open>Properties\<close>

subsection \<open>Facts about the configured values\<close>

lemma locales_config_of [simp]:
  "locales (config_of h) = [(''root'', root_locale), (''en'', en_locale)]"
  by (simp add: config_of_def)

lemma head_config_of [simp]: "head (config_of h) = head_of h"
  by (simp add: config_of_def)

lemma sitemap_hostname_config_of [simp]: "sitemap_hostname (config_of h) = h"
  by (simp add: config_of_def)

lemma link_root_locale [simp]: "link root_locale = None"
  by (simp add: root_locale_def)

lemma link_en_locale [simp]: "link en_locale = Some ''/en/''"
  by (simp add: en_locale_def)

lemma sidebar_root_locale [simp]: "sidebar (locale_themeConfig root_locale) = root_sidebar"
  by (simp add: root_locale_def)

lemma sidebar_en_locale [simp]: "sidebar (locale_themeConfig en_locale) = en_sidebar"
  by (simp add: en_locale_def)

lemma sidebar_items_root [simp]: "sidebar_items root_locale = root_sidebar_items"
  by (simp add: sidebar_items_def root_sidebar_def)

lemma sidebar_items_en [simp]: "sidebar_items en_locale = en_sidebar_items"
  by (simp add: sidebar_items_def en_sidebar_def)

lemma root_links:
  "map item_link root_sidebar_items =
    [''/guide/intro'', ''/guide/gateway'', ''/guide/channels'', ''/guide/agents'',
     ''/guide/tools'', ''/guide/skills'', ''/guide/memory'', ''/guide/models'',
     ''/guide/security'', ''/guide/deployment'']"
  by (simp add: root_sidebar_items_def)

lemma en_links:
  "map item_link en_sidebar_items =
    [''/en/guide/intro'', ''/en/guide/gateway'', ''/en/guide/channels'', ''/en/guide/agents'',
     ''/en/guide/tools'', ''/en/guide/skills'', ''/en/guide/memory'', ''/en/guide/models'',
     ''/en/guide/security'', ''/en/guide/deployment'']"
  by (simp add: en_sidebar_items_def)

lemma length_root_items: "length root_sidebar_items = 10"
  using arg_cong [OF root_links, of length] by simp

lemma length_en_items: "length en_sidebar_items = 10"
  using arg_cong [OF en_links, of length] by simp

lemma social_image_urls_head_of:
  "social_image_urls (head_of h) = [h @ ''/pixel-lobster.svg'', h @ ''/pixel-lobster.svg'']"
  by (simp add: social_image_urls_def List.map_filter_def meta_content_def head_of_def)

lemma list_all_prefix_map: "list_all (prefix h) (map (\<lambda>p. h @ f p) ps)"
  by (induction ps) simp_all

lemma resolve_locale_config_of:
  "resolve_locale (locales (config_of h)) route
     = (if prefix ''/en/'' route then ''en'' else ''root'')"
  by (simp add: resolve_locale_def locale_matches_def route_prefix_def)

subsection \<open>The social image tags\<close>

text \<open>
  C3. The head tags are built by concatenating the hostname constant and the fixed path
  \<open>/pixel-lobster.svg\<close>: at the hostname \<open>https://example.org\<close> the content of the Open
  Graph image tag and of the Twitter image tag is \<open>https://example.org/pixel-lobster.svg\<close>,
  and at every hostname \<open>h\<close>, of any form, both are \<open>h\<close> followed by that path: the
  hostname is neither checked nor rewritten.
\<close>

theorem head_image_is_concatenation:
  "meta_content ''property'' ''og:image'' (head (config_of ''https://example.org''))
     = Some ''https://example.org/pixel-lobster.svg''
   \<and> meta_content ''name'' ''twitter:image'' (head (config_of ''https://example.org''))
     = Some ''https://example.org/pixel-lobster.svg''
   \<and> meta_content ''property'' ''og:image'' (head (config_of h))
     = Some (h @ ''/pixel-lobster.svg'')
   \<and> meta_content ''name'' ''twitter:image'' (head (config_of h))
     = Some (h @ ''/pixel-lobster.svg'')"
  by (simp add: config_of_def head_of_def meta_content_def)

subsection \<open>The hostname, from the configuration to the generated URLs\<close>

text \<open>
  C9. The string configured as \<open>sitemap.hostname\<close> is the constant that the social
  image tags interpolate: at every hostname \<open>h\<close> the configuration's \<open>sitemap.hostname\<close>
  is \<open>h\<close>, both social image URLs are that string followed by \<open>/pixel-lobster.svg\<close> and
  so begin with it, and every sitemap entry (one for each page path) begins with it. The
  same holds of the exported configuration and the constant of the module. There, the
  two social image URLs are all the absolute URLs among the attribute values of the head
  tags.
\<close>

theorem hostname_round_trip:
  "sitemap_hostname (config_of h) = h
   \<and> social_image_urls (head (config_of h))
       = [sitemap_hostname (config_of h) @ ''/pixel-lobster.svg'',
          sitemap_hostname (config_of h) @ ''/pixel-lobster.svg'']
   \<and> list_all (prefix (sitemap_hostname (config_of h))) (social_image_urls (head (config_of h)))
   \<and> length (sitemap_entries (config_of h) paths) = length paths
   \<and> list_all (prefix (sitemap_hostname (config_of h))) (sitemap_entries (config_of h) paths)
   \<and> sitemap_hostname config = hostname
   \<and> list_all (prefix hostname) (social_image_urls (head config))
   \<and> list_all (prefix hostname) (sitemap_entries config paths)
   \<and> filter is_absolute_url (concat (map (map snd \<circ> snd) (head config)))
       = social_image_urls (head config)"
proof -
  have entries: "list_all (prefix k) (sitemap_entries (config_of k) paths)" for k
    unfolding sitemap_entries_def sitemap_hostname_config_of by (rule list_all_prefix_map)
  have urls: "list_all (prefix k) (social_image_urls (head (config_of k)))" for k
    by (simp add: social_image_urls_head_of)
  have absolute: "filter is_absolute_url (concat (map (map snd \<circ> snd) (head config)))
       = social_image_urls (head config)"
    unfolding config_def head_config_of social_image_urls_head_of
    by (simp add: head_of_def hostname_def is_absolute_url_def is_alpha_def is_digit_def
        is_scheme_char_def is_url_char_def)
  show ?thesis
    using entries urls absolute
    by (simp add: config_def social_image_urls_head_of sitemap_entries_def)
qed

subsection \<open>The two sidebars\<close>

text \<open>
  C10. The sidebars of the two locales are parallel: each has exactly one group, of ten
  entries, and for every index \<open>i\<close> below ten the link of the English entry \<open>i\<close> is the
  string \<open>/en\<close> followed by the link of the root (Chinese) entry \<open>i\<close>.
\<close>

theorem sidebars_parallel:
  "map (length \<circ> items) (sidebar (locale_themeConfig root_locale)) = [10]
   \<and> map (length \<circ> items) (sidebar (locale_themeConfig en_locale)) = [10]
   \<and> (\<forall>i < 10. item_link (sidebar_items en_locale ! i)
                  = ''/en'' @ item_link (sidebar_items root_locale ! i))"
proof -
  have groups:
    "map (length \<circ> items) (sidebar (locale_themeConfig root_locale)) = [10]"
    "map (length \<circ> items) (sidebar (locale_themeConfig en_locale)) = [10]"
    by (simp_all add: root_sidebar_def en_sidebar_def length_root_items length_en_items)
  have maps:
    "map item_link en_sidebar_items = map ((@) ''/en'') (map item_link root_sidebar_items)"
    unfolding root_links en_links by simp
  have "item_link (en_sidebar_items ! i) = ''/en'' @ item_link (root_sidebar_items ! i)"
    if "i < 10" for i
  proof -
    have "item_link (en_sidebar_items ! i) = map item_link en_sidebar_items ! i"
      using that by (simp add: length_en_items)
    also have "\<dots> = ''/en'' @ item_link (root_sidebar_items ! i)"
      unfolding maps using that by (simp add: length_root_items)
    finally show ?thesis .
  qed
  with groups show ?thesis by simp
qed

theorem sidebars_parallel_witness:
  "(3::nat) < 10
   \<and> item_link (sidebar_items en_locale ! 3) = ''/en/guide/agents''
   \<and> item_link (sidebar_items root_locale ! 3) = ''/guide/agents''
   \<and> item_link (sidebar_items en_locale ! 3)
       = ''/en'' @ item_link (sidebar_items root_locale ! 3)"
proof -
  have "item_link (sidebar_items en_locale ! 3)
          = ''/en'' @ item_link (sidebar_items root_locale ! 3)"
    using sidebars_parallel by simp
  moreover have "item_link (sidebar_items root_locale ! 3) = ''/guide/agents''"
    by (simp add: root_sidebar_items_def)
  ultimately show ?thesis by simp
qed

subsection \<open>Locale resolution\<close>

text \<open>
  C4. Over the configured locale dictionary the locale of a route is decided by its
  leading prefix: for every route the English locale is selected exactly when the route
  begins with \<open>/en/\<close>, and the root (Chinese) locale exactly when it does not; the sidebar
  shown is the English one (ten entries, with the English labels) in the first case and
  the root one (ten entries) in the second, and the two differ.
\<close>

theorem locale_resolution:
  "(resolve_locale (locales config) route = ''en'') = prefix ''/en/'' route
   \<and> (resolve_locale (locales config) route = ''root'') = (\<not> prefix ''/en/'' route)
   \<and> route_sidebar config route = (if prefix ''/en/'' route then en_sidebar else root_sidebar)
   \<and> map item_text (concat (map items en_sidebar))
       = [''1. Overview & Architecture'', ''2. Gateway Mechanism'', ''3. Multi-Channel System'',
          ''4. Agent System'', ''5. Tools & Extensions'', ''6. Skills & Plugins'',
          ''7. Memory Management'', ''8. Model Integration'', ''9. Security Model'',
          ''10. Deployment'']
   \<and> length (concat (map items root_sidebar)) = 10
   \<and> en_sidebar \<noteq> root_sidebar"
proof -
  have r: "resolve_locale (locales config) route
             = (if prefix ''/en/'' route then ''en'' else ''root'')"
    unfolding config_def by (rule resolve_locale_config_of)
  have s: "route_sidebar config route
             = (if prefix ''/en/'' route then en_sidebar else root_sidebar)"
    unfolding route_sidebar_def r by (simp add: config_def)
  have labels: "map item_text (concat (map items en_sidebar))
       = [''1. Overview & Architecture'', ''2. Gateway Mechanism'', ''3. Multi-Channel System'',
          ''4. Agent System'', ''5. Tools & Extensions'', ''6. Skills & Plugins'',
          ''7. Memory Management'', ''8. Model Integration'', ''9. Security Model'',
          ''10. Deployment'']"
    by (simp add: en_sidebar_def en_sidebar_items_def)
  have n: "length (concat (map items root_sidebar)) = 10"
    by (simp add: root_sidebar_def length_root_items)
  have d: "en_sidebar \<noteq> root_sidebar"
    by (simp add: en_sidebar_def root_sidebar_def)
  from r s labels n d show ?thesis by simp
qed

theorem locale_resolution_witness:
  "resolve_locale (locales config) ''/en/guide/tools'' = ''en''
   \<and> route_sidebar config ''/en/guide/tools'' = en_sidebar
   \<and> resolve_locale (locales config) ''/guide/tools'' = ''root''
   \<and> route_sidebar config ''/guide/tools'' = root_sidebar"
  using locale_resolution [of "''/en/guide/tools''"] locale_resolution [of "''/guide/tools''"]
  by simp

subsection \<open>The format of the configured hostname\<close>

text \<open>
  C7. The configured hostname constant is an absolute URL, with a scheme, and has no
  trailing slash; \<open>https://clawdbot-guide.com\<close> has this format, while
  \<open>https://clawdbot-guide.com/\<close> (trailing slash) and \<open>your-actual-domain.com\<close> (no
  scheme) do not.
\<close>

theorem hostname_format:
  "valid_hostname hostname
   \<and> valid_hostname ''https://clawdbot-guide.com''
   \<and> \<not> valid_hostname ''https://clawdbot-guide.com/''
   \<and> \<not> valid_hostname ''your-actual-domain.com''"
proof -
  have a: "valid_hostname ''https://clawdbot-guide.com''"
    by (simp add: valid_hostname_def is_absolute_url_def no_trailing_slash_def
        is_alpha_def is_digit_def is_scheme_char_def is_url_char_def)
  have b: "\<not> valid_hostname ''https://clawdbot-guide.com/''"
    by (simp add: valid_hostname_def no_trailing_slash_def)
  have c: "\<not> valid_hostname ''your-actual-domain.com''"
    by (simp add: valid_hostname_def is_absolute_url_def)
  from a b c show ?thesis by (simp add: hostname_def)
qed

subsection \<open>The homepage render functions\<close>

text \<open>
  C6, as stated, fails: the render functions interpolate \<open>ssrRenderAttrs(_attrs)\<close> into
  the tag they push, so two invocations that differ in the attributes passed emit
  different markup. With the attribute \<open>class\<close> set to \<open>home\<close> the module for \<open>index.md\<close>
  pushes \<open><div class="home"></div>\<close>, with no attribute it pushes \<open><div></div>\<close>; the
  module for \<open>en/index.md\<close> does the same.
\<close>

theorem ssrRender_attrs_counterexample:
  "sfc_ssrRender_index plain_attrs () push_buffer () [(''class'', ''home'')] () () () () []
     = [''<div class='' @ [CHR 0x22] @ ''home'' @ [CHR 0x22] @ ''></div>'']
   \<and> sfc_ssrRender_index plain_attrs () push_buffer () [] () () () () [] = [''<div></div>'']
   \<and> sfc_ssrRender_index plain_attrs () push_buffer () [(''class'', ''home'')] () () () () []
     \<noteq> sfc_ssrRender_index plain_attrs () push_buffer () [] () () () () []
   \<and> sfc_ssrRender_en_index plain_attrs () push_buffer () [(''class'', ''home'')] () () () () []
     \<noteq> sfc_ssrRender_en_index plain_attrs () push_buffer () [] () () () () []"
  by (simp add: sfc_ssrRender_index_def sfc_ssrRender_en_index_def plain_attrs_def
      push_buffer_def)

text \<open>
  C6, amended. Each homepage render function depends on the attributes passed and on
  nothing else of its runtime input: two invocations with the same attributes and the
  same push make the same call of push, whatever the context, parent, props, setup
  state, data and options are. The call pushes exactly one string, \<open><div\<close>, the rendered
  attributes and \<open>></div>\<close>; when the attributes render to the empty string it is the
  single empty container \<open><div></div>\<close>. The functions are total: they have no error
  path of their own.
\<close>

theorem ssrRender_depends_on_attrs_only:
  "sfc_ssrRender_index ra ctx push parent attrs props setup data options
     = sfc_ssrRender_index ra ctx' push parent' attrs props' setup' data' options'
   \<and> sfc_ssrRender_en_index ra ctx push parent attrs props setup data options
     = sfc_ssrRender_en_index ra ctx' push parent' attrs props' setup' data' options'
   \<and> sfc_ssrRender_index ra ctx push_buffer parent attrs props setup data options buf
     = buf @ [''<div'' @ ra attrs @ ''></div>'']
   \<and> sfc_ssrRender_en_index ra ctx push_buffer parent attrs props setup data options buf
     = buf @ [''<div'' @ ra attrs @ ''></div>'']
   \<and> (ra attrs = [] \<longrightarrow>
        sfc_ssrRender_index ra ctx push parent attrs props setup data options
          = push ''<div></div>''
        \<and> sfc_ssrRender_en_index ra ctx push parent attrs props setup data options
          = push ''<div></div>'')"
  by (simp add: sfc_ssrRender_index_def sfc_ssrRender_en_index_def push_buffer_def)

theorem ssrRender_depends_on_attrs_only_witness:
  "plain_attrs [] = []
   \<and> sfc_ssrRender_index plain_attrs () push_buffer () [] (1::nat) () () () []
       = [''<div></div>'']
   \<and> sfc_ssrRender_en_index plain_attrs () push_buffer () [] (2::nat) () () () []
       = [''<div></div>'']"
proof -
  have e: "plain_attrs [] = []" by (simp add: plain_attrs_def)
  show ?thesis
    using e
      ssrRender_depends_on_attrs_only [of plain_attrs "()" push_buffer "()" "[]" "1::nat"
        "()" "()" "()" "()" "()" "1::nat" "()" "()" "()" "[]"]
      ssrRender_depends_on_attrs_only [of plain_attrs "()" push_buffer "()" "[]" "2::nat"
        "()" "()" "()" "()" "()" "2::nat" "()" "()" "()" "[]"]
    by (simp add: push_buffer_def)
qed

subsection \<open>The theme module\<close>

text \<open>
  C8. The \<open>enhanceApp\<close> hook of the theme is a no-op: the context it receives, and the
  application object in it, are after the call what they were before. The exported
  theme consists of the default theme it extends, the substituted layout component and
  this hook, and the module imports the stylesheet; the hook is total and returns no
  error.
\<close>

theorem enhanceApp_noop:
  "enhanceApp ctx = ctx
   \<and> app (enhanceApp ctx) = app ctx
   \<and> theme_enhanceApp (theme d l) ctx = ctx
   \<and> Layout (theme d l) = l
   \<and> extends (theme d l) = d
   \<and> ''./style.css'' \<in> set theme_imports"
  by (simp add: enhanceApp_def theme_def theme_imports_def)

end
